theory Spec2Isabelle
  imports Main "HOL-Library.Word"
begin

unbundle bit_operations_syntax

section \<open>Streaming TAR iteration and extraction (pkg/file/tarutil.go)\<close>

text \<open>
  A shallow embedding of \<^verbatim>\<open>pkg/file/tarutil.go\<close>: the iteration controller
  \<^verbatim>\<open>IterateTar\<close>, the two lookups \<^verbatim>\<open>ReaderFromTar\<close> and
  \<^verbatim>\<open>MetadataFromTar\<close>, and the extraction visitor \<^verbatim>\<open>tarVisitor.visit\<close>.
  Go's standard library (\<^verbatim>\<open>archive/tar\<close>, \<^verbatim>\<open>errors\<close>, \<^verbatim>\<open>io\<close>,
  \<^verbatim>\<open>path/filepath\<close>, \<^verbatim>\<open>strings\<close>) and the \<^verbatim>\<open>afero.Fs\<close> capability are
  not part of the file; the first are modelled by what they return on a Unix
  system, the second is a parameter of the visitor.
\<close>

subsection \<open>Errors\<close>

text \<open>
  Go's \<^verbatim>\<open>error\<close> values that occur in the file. \<^verbatim>\<open>nil\<close> is \<open>None\<close> of
  \<open>error option\<close>. The three \<^verbatim>\<open>fmt.Errorf\<close> calls with \<^verbatim>\<open>%w\<close> wrap
  another error; \<open>Wrapped\<close> and \<open>Plain\<close> stand for the errors of the
  collaborators (decoder, filesystem, a caller's visitor), with and without a
  wrapped cause.
\<close>

datatype error =
    EOF \<comment> \<open>\<^verbatim>\<open>io.EOF\<close>\<close>
  | ErrTarStopIteration \<comment> \<open>the sentinel \<^verbatim>\<open>"halt iterating tar"\<close>\<close>
  | ErrFileNotFound string \<comment> \<open>\<^verbatim>\<open>&ErrFileNotFound{Path}\<close>\<close>
  | ErrVisit string error \<comment> \<open>\<^verbatim>\<open>"failed to visit tar entry=%q : %w"\<close>\<close>
  | ErrTraversal string \<comment> \<open>\<^verbatim>\<open>"potential path traversal attack with entry: %q"\<close>\<close>
  | ErrReadLimit int int \<comment> \<open>\<^verbatim>\<open>"zip read limit hit (potential decompression bomb attack): %v > %v."\<close>\<close>
  | ErrCopy error \<comment> \<open>\<^verbatim>\<open>"unable to copy file: %w"\<close>\<close>
  | Plain string
  | Wrapped string error

text \<open>\<^verbatim>\<open>(*ErrFileNotFound).Error\<close>: the message carries the path.\<close>

definition ErrFileNotFound_Error :: "string \<Rightarrow> string" where
  "ErrFileNotFound_Error path = ''file not found (path='' @ path @ '')''"

text \<open>
  \<^verbatim>\<open>errors.Is(err, target)\<close> for a non-nil \<open>err\<close>: \<open>err\<close> is the target, or the
  error it wraps is.
\<close>

fun errors_Is :: "error \<Rightarrow> error \<Rightarrow> bool" where
  "errors_Is (ErrVisit n e) t = (ErrVisit n e = t \<or> errors_Is e t)"
| "errors_Is (ErrCopy e) t = (ErrCopy e = t \<or> errors_Is e t)"
| "errors_Is (Wrapped m e) t = (Wrapped m e = t \<or> errors_Is e t)"
| "errors_Is e t = (e = t)"

subsection \<open>Paths and strings\<close>

text \<open>
  \<^verbatim>\<open>os.PathSeparator\<close>, \<^verbatim>\<open>strings.HasPrefix\<close> and \<^verbatim>\<open>filepath.Join\<close> as they
  are on Unix. \<^verbatim>\<open>Join\<close> joins the non-empty leading elements with the separator
  and cleans the result: empty and \<^verbatim>\<open>.\<close> elements are dropped, \<^verbatim>\<open>..\<close>
  removes the element before it, stops at the root of a rooted path and stays
  at the front of a relative one; the empty result is \<^verbatim>\<open>.\<close>.
\<close>

definition PathSeparator :: char where
  "PathSeparator = CHR ''/''"

definition strings_HasPrefix :: "string \<Rightarrow> string \<Rightarrow> bool" where
  "strings_HasPrefix s pre = (length pre \<le> length s \<and> take (length pre) s = pre)"

fun split_elems :: "string \<Rightarrow> string \<Rightarrow> string list" where
  "split_elems cur [] = [rev cur]"
| "split_elems cur (c # cs) =
     (if c = PathSeparator then rev cur # split_elems [] cs else split_elems (c # cur) cs)"

fun clean_elems :: "bool \<Rightarrow> string list \<Rightarrow> string list \<Rightarrow> string list" where
  "clean_elems rooted out [] = rev out"
| "clean_elems rooted out (e # es) =
     (if e = [] \<or> e = ''.'' then clean_elems rooted out es
      else if e = ''..'' then
        (case out of
           t # ts \<Rightarrow>
             (if t \<noteq> ''..'' then clean_elems rooted ts es
              else if \<not> rooted then clean_elems rooted (''..'' # out) es
              else clean_elems rooted out es)
         | [] \<Rightarrow>
             (if \<not> rooted then clean_elems rooted (''..'' # out) es
              else clean_elems rooted out es))
      else clean_elems rooted (e # out) es)"

fun join_elems :: "string list \<Rightarrow> string" where
  "join_elems [] = []"
| "join_elems [e] = e"
| "join_elems (e # es) = e @ PathSeparator # join_elems es"

definition filepath_Clean :: "string \<Rightarrow> string" where
  "filepath_Clean path =
     (if path = [] then ''.''
      else
        (let rooted = (hd path = PathSeparator);
             out = join_elems (clean_elems rooted [] (split_elems [] path))
         in if rooted then PathSeparator # out
            else if out = [] then ''.'' else out))"

definition filepath_Join :: "string \<Rightarrow> string \<Rightarrow> string" where
  "filepath_Join a b =
     (if a \<noteq> [] then filepath_Clean (a @ PathSeparator # b)
      else if b \<noteq> [] then filepath_Clean b
      else [])"

subsection \<open>Headers, readers and entries\<close>

text \<open>
  The fields of \<^verbatim>\<open>tar.Header\<close> that the file reads (and the link target, which
  it never reads), and the type flags of \<^verbatim>\<open>archive/tar\<close>.
\<close>

record tar_Header =
  Name :: string
  Typeflag :: char
  Linkname :: string
  Size :: int
  Mode :: int

definition TypeReg :: char where "TypeReg = CHR ''0''"
definition TypeLink :: char where "TypeLink = CHR ''1''"
definition TypeSymlink :: char where "TypeSymlink = CHR ''2''"
definition TypeDir :: char where "TypeDir = CHR ''5''"

text \<open>
  What one call of \<^verbatim>\<open>tarReader.Next()\<close> yields: a header, with the bytes that
  the reader then delivers for this entry and the error that ends them
  (\<^verbatim>\<open>io.EOF\<close> at a regular end), which the read behind the last byte returns;
  a nil header with a nil error; or an error. The end of the list is
  \<^verbatim>\<open>io.EOF\<close>.
\<close>

datatype tar_frame =
    Hdr tar_Header "8 word list" error
  | NilHdr
  | Fail error

text \<open>
  The stream handed to the functions of the file: its identity, the bytes a
  direct read of it delivers, what the decoder built over it yields, pull by
  pull, and how many bytes one \<^verbatim>\<open>Read\<close> delivers into a buffer of the given
  length when the given bytes are still to come.
\<close>

record raw_stream =
  ident :: nat
  bytes :: "8 word list"
  frames :: "tar_frame list"
  piece :: "nat \<Rightarrow> 8 word list \<Rightarrow> nat"

text \<open>
  The two \<^verbatim>\<open>io.Reader\<close> values of the file: the stream argument itself, and the
  \<^verbatim>\<open>*tar.Reader\<close> built over it, positioned at an entry whose content it
  delivers.
\<close>

datatype io_Reader =
    Original raw_stream
  | TarReader raw_stream "8 word list" error

fun Read_all :: "io_Reader \<Rightarrow> 8 word list \<times> error" where
  "Read_all (Original r) = (bytes r, EOF)"
| "Read_all (TarReader r d fin) = (d, fin)"

fun stream_of :: "io_Reader \<Rightarrow> raw_stream" where
  "stream_of (Original r) = r"
| "stream_of (TarReader r d fin) = r"

text \<open>
  The number of bytes that one \<^verbatim>\<open>Read\<close> into a buffer of length \<open>k\<close> delivers
  while the bytes \<open>d\<close> are still to come: what the stream gives, at least one
  byte and at most the buffer and what is left.
\<close>

definition Read_len :: "io_Reader \<Rightarrow> nat \<Rightarrow> 8 word list \<Rightarrow> nat" where
  "Read_len r k d = max 1 (min (piece (stream_of r) k d) (min k (length d)))"

record TarFileEntry =
  Sequence :: "64 word"
  Header :: tar_Header
  Reader :: io_Reader

type_synonym 's TarFileVisitor = "TarFileEntry \<Rightarrow> 's \<Rightarrow> error option \<times> 's"

subsection \<open>The filesystem capability\<close>

text \<open>
  \<^verbatim>\<open>afero.Fs\<close> as the visitor uses it: five operations over a state \<open>'w\<close> of the
  implementation's own, with file handles \<open>'f\<close>. The visitor's state is that
  state together with the list of the calls made so far.
\<close>

record ('w, 'f) Fs =
  Stat :: "string \<Rightarrow> 'w \<Rightarrow> error option \<times> 'w"
  MkdirAll :: "string \<Rightarrow> 32 word \<Rightarrow> 'w \<Rightarrow> error option \<times> 'w"
  OpenFile :: "string \<Rightarrow> int \<Rightarrow> 32 word \<Rightarrow> 'w \<Rightarrow> (error + 'f) \<times> 'w"
  Write :: "'f \<Rightarrow> 8 word list \<Rightarrow> 'w \<Rightarrow> (int \<times> error option) \<times> 'w"
  Close :: "'f \<Rightarrow> 'w \<Rightarrow> error option \<times> 'w"

datatype 'f fs_call =
    CallStat string
  | CallMkdirAll string "32 word"
  | CallOpenFile string int "32 word"
  | CallWrite 'f "8 word list"
  | CallClose 'f

record ('w, 'f) disk =
  world :: 'w
  calls :: "'f fs_call list"

definition fs_Stat :: "('w, 'f) Fs \<Rightarrow> string \<Rightarrow> ('w, 'f) disk \<Rightarrow> error option \<times> ('w, 'f) disk" where
  "fs_Stat F p st =
     (case Stat F p (world st) of
        (r, w) \<Rightarrow> (r, \<lparr>world = w, calls = calls st @ [CallStat p]\<rparr>))"

definition fs_MkdirAll ::
  "('w, 'f) Fs \<Rightarrow> string \<Rightarrow> 32 word \<Rightarrow> ('w, 'f) disk \<Rightarrow> error option \<times> ('w, 'f) disk" where
  "fs_MkdirAll F p m st =
     (case MkdirAll F p m (world st) of
        (r, w) \<Rightarrow> (r, \<lparr>world = w, calls = calls st @ [CallMkdirAll p m]\<rparr>))"

definition fs_OpenFile ::
  "('w, 'f) Fs \<Rightarrow> string \<Rightarrow> int \<Rightarrow> 32 word \<Rightarrow> ('w, 'f) disk \<Rightarrow> (error + 'f) \<times> ('w, 'f) disk" where
  "fs_OpenFile F p fl m st =
     (case OpenFile F p fl m (world st) of
        (r, w) \<Rightarrow> (r, \<lparr>world = w, calls = calls st @ [CallOpenFile p fl m]\<rparr>))"

definition fs_Write ::
  "('w, 'f) Fs \<Rightarrow> 'f \<Rightarrow> 8 word list \<Rightarrow> ('w, 'f) disk \<Rightarrow> (int \<times> error option) \<times> ('w, 'f) disk" where
  "fs_Write F f bs st =
     (case Write F f bs (world st) of
        (r, w) \<Rightarrow> (r, \<lparr>world = w, calls = calls st @ [CallWrite f bs]\<rparr>))"

definition fs_Close :: "('w, 'f) Fs \<Rightarrow> 'f \<Rightarrow> ('w, 'f) disk \<Rightarrow> error option \<times> ('w, 'f) disk" where
  "fs_Close F f st =
     (case Close F f (world st) of
        (r, w) \<Rightarrow> (r, \<lparr>world = w, calls = calls st @ [CallClose f]\<rparr>))"

text \<open>The mode \<^verbatim>\<open>0755\<close> of the directories the visitor creates.\<close>

definition dir_mode :: "32 word" where "dir_mode = 0x1ED"

definition O_RDWR :: int where "O_RDWR = 0x2"
definition O_CREATE :: int where "O_CREATE = 0x40"

subsection \<open>Bounded copy\<close>

text \<open>
  \<^verbatim>\<open>io.LimitReader(r, n)\<close>: the reader \<open>r\<close> with the number of bytes that it
  may still deliver.
\<close>

record LimitedReader =
  LimitedReader_R :: io_Reader
  LimitedReader_N :: int

definition io_LimitReader :: "io_Reader \<Rightarrow> int \<Rightarrow> LimitedReader" where
  "io_LimitReader r n = \<lparr>LimitedReader_R = r, LimitedReader_N = n\<rparr>"

text \<open>
  The pieces that successive calls of \<^verbatim>\<open>(*LimitedReader).Read\<close> with a buffer of
  length \<open>buf\<close> deliver, while \<open>n\<close> bytes may still be delivered and the bytes
  \<open>d\<close> of the reader are still to come: with \<open>n \<le> 0\<close> the read returns
  \<^verbatim>\<open>io.EOF\<close>; otherwise the buffer is cut to \<open>n\<close> and handed to the reader.
\<close>

function LimitedReader_reads ::
  "io_Reader \<Rightarrow> nat \<Rightarrow> int \<Rightarrow> 8 word list \<Rightarrow> 8 word list list" where
  "LimitedReader_reads r buf n d =
     (if n \<le> 0 \<or> d = [] then []
      else
        (let nr = Read_len r (min buf (nat n)) d
         in take nr d # LimitedReader_reads r buf (n - int nr) (drop nr d)))"
  by pat_completeness auto
termination
proof (relation "measure (\<lambda>(r, buf, n, d). length d)", goal_cases)
  case 1
  show ?case by simp
next
  case (2 r buf n d nr)
  have "1 \<le> Read_len r (min buf (nat n)) d"
    unfolding Read_len_def by (rule max.cobounded1)
  then have "1 \<le> nr"
    using 2(2) by simp
  moreover have "d \<noteq> []"
    using 2(1) by simp
  ultimately show ?case
    by simp
qed

declare LimitedReader_reads.simps [simp del]

text \<open>
  The buffer of \<^verbatim>\<open>io.Copy\<close>: 32 KiB, or the limit of a \<^verbatim>\<open>LimitedReader\<close> that is
  below that, and one byte at least.
\<close>

definition copy_buffer :: "LimitedReader \<Rightarrow> nat" where
  "copy_buffer l =
     (if 32 * 1024 > LimitedReader_N l
      then (if LimitedReader_N l < 1 then 1 else nat (LimitedReader_N l))
      else 32 * 1024)"

definition ErrShortWrite :: error where
  "ErrShortWrite = Plain ''short write''"

definition errInvalidWrite :: error where
  "errInvalidWrite = Plain ''invalid write result''"

text \<open>
  The loop of \<^verbatim>\<open>io.Copy\<close> over the pieces that its reads deliver: one
  \<^verbatim>\<open>Write\<close> for each piece, \<open>written\<close> counting the bytes; a write error or a
  short write ends the copy; behind the last piece the copy returns \<open>rd_err\<close>,
  the error of the read that ended the source.
\<close>

fun copy_writes ::
  "('w, 'f) Fs \<Rightarrow> 'f \<Rightarrow> 8 word list list \<Rightarrow> error option \<Rightarrow> int \<Rightarrow> ('w, 'f) disk \<Rightarrow>
     (int \<times> error option) \<times> ('w, 'f) disk" where
  "copy_writes F f [] rd_err written st = ((written, rd_err), st)"
| "copy_writes F f (c # cs) rd_err written st =
     (case fs_Write F f c st of
        ((nw0, ew0), st') \<Rightarrow>
          let nr = int (length c);
              bad = (nw0 < 0 \<or> nr < nw0);
              nw = (if bad then 0 else nw0);
              ew = (if bad \<and> ew0 = None then Some errInvalidWrite else ew0)
          in if ew \<noteq> None then ((written + nw, ew), st')
             else if nr \<noteq> nw then ((written + nw, Some ErrShortWrite), st')
             else copy_writes F f cs rd_err (written + nw) st')"

text \<open>
  \<^verbatim>\<open>io.Copy(f, src)\<close> from a \<^verbatim>\<open>LimitedReader\<close>. The reads do not touch the
  filesystem, so their pieces are taken first. The source ends with
  \<^verbatim>\<open>io.EOF\<close> of the \<^verbatim>\<open>LimitedReader\<close> when the limit is reached, and as its
  reader ends when that has fewer bytes; an end other than \<^verbatim>\<open>io.EOF\<close> itself is
  the error of the copy.
\<close>

definition io_Copy ::
  "('w, 'f) Fs \<Rightarrow> 'f \<Rightarrow> LimitedReader \<Rightarrow> ('w, 'f) disk \<Rightarrow>
     (int \<times> error option) \<times> ('w, 'f) disk" where
  "io_Copy F f src st =
     (case Read_all (LimitedReader_R src) of
        (d, er) \<Rightarrow>
          let pieces = LimitedReader_reads (LimitedReader_R src) (copy_buffer src)
                         (LimitedReader_N src) d;
              rd_err = (if int (length d) < LimitedReader_N src \<and> er \<noteq> EOF
                        then Some er else None)
          in copy_writes F f pieces rd_err 0 st)"

subsection \<open>The extraction visitor\<close>

text \<open>
  \<^verbatim>\<open>tarVisitor.visit\<close>, with the capability \<open>F\<close>, the destination and the
  package's \<^verbatim>\<open>perFileReadLimit\<close> as parameters. Logging is left out.
\<close>

definition visit ::
  "('w, 'f) Fs \<Rightarrow> string \<Rightarrow> int \<Rightarrow> TarFileEntry \<Rightarrow> ('w, 'f) disk \<Rightarrow>
     error option \<times> ('w, 'f) disk" where
  "visit F destination perFileReadLimit entry st =
     (let name = Name (Header entry);
          target = filepath_Join destination name;
          withinDir = destination @ [PathSeparator]
      in if \<not> strings_HasPrefix target withinDir \<and> name \<noteq> ''.''
         then (Some (ErrTraversal name), st)
         else if Typeflag (Header entry) = TypeSymlink \<or> Typeflag (Header entry) = TypeLink
         then (None, st)
         else if Typeflag (Header entry) = TypeDir
         then
           (if name = ''.'' then (None, st)
            else
              (case fs_Stat F target st of
                 (None, st1) \<Rightarrow> (None, st1)
               | (Some _, st1) \<Rightarrow>
                   (case fs_MkdirAll F target dir_mode st1 of
                      (Some err, st2) \<Rightarrow> (Some err, st2)
                    | (None, st2) \<Rightarrow> (None, st2))))
         else if Typeflag (Header entry) = TypeReg
         then
           (case fs_OpenFile F target (O_CREATE OR O_RDWR) (word_of_int (Mode (Header entry))) st of
              (Inl err, st1) \<Rightarrow> (Some err, st1)
            | (Inr f, st1) \<Rightarrow>
                (case io_Copy F f (io_LimitReader (Reader entry) perFileReadLimit) st1 of
                   ((numBytes, err), st2) \<Rightarrow>
                     if numBytes \<ge> perFileReadLimit
                        \<or> (case err of None \<Rightarrow> False | Some e \<Rightarrow> errors_Is e EOF)
                     then (Some (ErrReadLimit numBytes perFileReadLimit), st2)
                     else
                       (case err of
                          Some e \<Rightarrow> (Some (ErrCopy e), st2)
                        | None \<Rightarrow> (case fs_Close F f st2 of (_, st3) \<Rightarrow> (None, st3)))))
         else (None, st))"

subsection \<open>The iteration controller\<close>

text \<open>
  \<^verbatim>\<open>IterateTar\<close>. The loop runs over what \<^verbatim>\<open>tarReader.Next()\<close> yields;
  \<open>sequence\<close> is the counter as it stands at the top of the loop body, before
  \<^verbatim>\<open>sequence++\<close>, and starts at \<open>-1\<close>. Besides the error and the visitor's
  state, the result holds the frames that the decoder was never asked for.
\<close>

fun IterateTar_loop ::
  "raw_stream \<Rightarrow> 's TarFileVisitor \<Rightarrow> 64 word \<Rightarrow> tar_frame list \<Rightarrow> 's \<Rightarrow>
     (error option \<times> 's) \<times> tar_frame list" where
  "IterateTar_loop r visitor sequence [] s = ((None, s), [])"
| "IterateTar_loop r visitor sequence (Fail err # rest) s =
     (if errors_Is err EOF then ((None, s), rest) else ((Some err, s), rest))"
| "IterateTar_loop r visitor sequence (NilHdr # rest) s =
     IterateTar_loop r visitor (sequence + 1) rest s"
| "IterateTar_loop r visitor sequence (Hdr hdr d fin # rest) s =
     (case visitor \<lparr>Sequence = sequence + 1, Header = hdr, Reader = TarReader r d fin\<rparr> s of
        (None, s') \<Rightarrow> IterateTar_loop r visitor (sequence + 1) rest s'
      | (Some err, s') \<Rightarrow>
          if errors_Is err ErrTarStopIteration then ((None, s'), rest)
          else ((Some (ErrVisit (Name hdr) err), s'), rest))"

definition IterateTar ::
  "raw_stream \<Rightarrow> 's TarFileVisitor \<Rightarrow> 's \<Rightarrow> (error option \<times> 's) \<times> tar_frame list" where
  "IterateTar reader visitor s = IterateTar_loop reader visitor (- 1) (frames reader) s"

subsection \<open>The lookups\<close>

text \<open>
  \<^verbatim>\<open>tarFile\<close> pairs a reader with a closer; its \<^verbatim>\<open>Read\<close> and \<^verbatim>\<open>Close\<close> are
  those of its two fields. Closing a stream marks its identity as closed.
\<close>

record tarFile =
  tarFile_Reader :: io_Reader
  tarFile_Closer :: raw_stream

definition stream_Close :: "raw_stream \<Rightarrow> nat set \<Rightarrow> nat set" where
  "stream_Close r closed = insert (ident r) closed"

definition tarFile_Close :: "tarFile \<Rightarrow> nat set \<Rightarrow> nat set" where
  "tarFile_Close tf closed = stream_Close (tarFile_Closer tf) closed"

definition tarFile_Read :: "tarFile \<Rightarrow> 8 word list \<times> error" where
  "tarFile_Read tf = Read_all (tarFile_Reader tf)"

text \<open>
  \<^verbatim>\<open>ReaderFromTar\<close>: the closure's captured variable \<^verbatim>\<open>result\<close> is the
  visitor's state.
\<close>

definition ReaderFromTar_visitor :: "raw_stream \<Rightarrow> string \<Rightarrow> tarFile option TarFileVisitor" where
  "ReaderFromTar_visitor reader tarPath entry result =
     (if Name (Header entry) = tarPath
      then (Some ErrTarStopIteration,
            Some \<lparr>tarFile_Reader = Reader entry, tarFile_Closer = reader\<rparr>)
      else (None, result))"

definition ReaderFromTar :: "raw_stream \<Rightarrow> string \<Rightarrow> (error + tarFile) \<times> tar_frame list" where
  "ReaderFromTar reader tarPath =
     (case IterateTar reader (ReaderFromTar_visitor reader tarPath) None of
        ((Some err, _), rest) \<Rightarrow> (Inl err, rest)
      | ((None, None), rest) \<Rightarrow> (Inl (ErrFileNotFound tarPath), rest)
      | ((None, Some result), rest) \<Rightarrow> (Inr result, rest))"

text \<open>
  \<^verbatim>\<open>MetadataFromTar\<close>. \<^verbatim>\<open>NewMetadata\<close> is declared elsewhere in the package
  and is a parameter here; a nil \<^verbatim>\<open>content\<close> is \<open>None\<close>.
\<close>

definition MetadataFromTar_visitor ::
  "(tar_Header \<Rightarrow> io_Reader option \<Rightarrow> 'm) \<Rightarrow> raw_stream \<Rightarrow> string \<Rightarrow> 'm option TarFileVisitor" where
  "MetadataFromTar_visitor NewMetadata reader tarPath entry metadata =
     (if Name (Header entry) = tarPath
      then
        (let content = (if Size (Header entry) > 0 then Some (Original reader) else None);
             m = NewMetadata (Header entry) content
         in (Some ErrTarStopIteration, Some m))
      else (None, metadata))"

definition MetadataFromTar ::
  "(tar_Header \<Rightarrow> io_Reader option \<Rightarrow> 'm) \<Rightarrow> raw_stream \<Rightarrow> string \<Rightarrow>
     (error + 'm) \<times> tar_frame list" where
  "MetadataFromTar NewMetadata reader tarPath =
     (case IterateTar reader (MetadataFromTar_visitor NewMetadata reader tarPath) None of
        ((Some err, _), rest) \<Rightarrow> (Inl err, rest)
      | ((None, None), rest) \<Rightarrow> (Inl (ErrFileNotFound tarPath), rest)
      | ((None, Some metadata), rest) \<Rightarrow> (Inr metadata, rest))"

subsection \<open>Extraction\<close>

definition UntarToDirectory ::
  "('w, 'f) Fs \<Rightarrow> int \<Rightarrow> raw_stream \<Rightarrow> string \<Rightarrow> ('w, 'f) disk \<Rightarrow>
     (error option \<times> ('w, 'f) disk) \<times> tar_frame list" where
  "UntarToDirectory F perFileReadLimit reader dst st =
     IterateTar reader (visit F dst perFileReadLimit) st"

subsection \<open>An in-memory filesystem\<close>

text \<open>
  A flat in-memory implementation of the capability, for running the visitor on
  concrete entries: a path is a directory, a file with its mode, its bytes and
  the offset of its open handle, or absent; a file handle is the file's path.
  Opening a file sets the offset to the start and keeps the bytes; a write puts
  its bytes at the offset and moves the offset behind them.
\<close>

datatype mem_node = MemDir | MemFile "32 word" "8 word list" nat

type_synonym mem_world = "(string \<times> mem_node) list"

definition memFs :: "(mem_world, string) Fs" where
  "memFs =
     \<lparr>Stat = (\<lambda>p w.
        (case map_of w p of None \<Rightarrow> Some (Plain ''file does not exist'') | Some _ \<Rightarrow> None, w)),
      MkdirAll = (\<lambda>p m w.
        (case map_of w p of
           Some (MemFile _ _ _) \<Rightarrow> (Some (Plain ''not a directory''), w)
         | Some MemDir \<Rightarrow> (None, w)
         | None \<Rightarrow> (None, (p, MemDir) # w))),
      OpenFile = (\<lambda>p fl m w.
        (case map_of w p of
           Some MemDir \<Rightarrow> (Inl (Plain ''is a directory''), w)
         | Some (MemFile m' old _) \<Rightarrow> (Inr p, (p, MemFile m' old 0) # w)
         | None \<Rightarrow> (Inr p, (p, MemFile m [] 0) # w))),
      Write = (\<lambda>f bs w.
        (case map_of w f of
           Some (MemFile m old off) \<Rightarrow>
             ((int (length bs), None),
              (f, MemFile m (take off old @ bs @ drop (off + length bs) old) (off + length bs)) # w)
         | _ \<Rightarrow> ((0, Some (Plain ''bad file descriptor'')), w))),
      Close = (\<lambda>f w. (None, w))\<rparr>"

definition out_dir :: "(mem_world, string) disk" where
  "out_dir = \<lparr>world = [(''/out'', MemDir)], calls = []\<rparr>"

subsection \<open>Sample inputs\<close>

text \<open>
  The stream of the directory \<^verbatim>\<open>a/\<close> and the file \<^verbatim>\<open>a/b.txt\<close> with content
  \<^verbatim>\<open>hi\<close> and mode \<^verbatim>\<open>0644\<close>, read one byte at a time, and entries that the
  properties below are run on.
\<close>

definition hi :: "8 word list" where
  "hi = [0x68, 0x69]"

definition dir_a :: tar_Header where
  "dir_a = \<lparr>Name = ''a/'', Typeflag = TypeDir, Linkname = [], Size = 0, Mode = 0x1ED\<rparr>"

definition file_b :: tar_Header where
  "file_b = \<lparr>Name = ''a/b.txt'', Typeflag = TypeReg, Linkname = [], Size = 2, Mode = 0x1A4\<rparr>"

definition empty_c :: tar_Header where
  "empty_c = \<lparr>Name = ''a/c'', Typeflag = TypeReg, Linkname = [], Size = 0, Mode = 0x1A4\<rparr>"

definition sample :: raw_stream where
  "sample =
     \<lparr>ident = 3, bytes = [],
      frames = [Hdr dir_a [] EOF, Hdr file_b hi EOF, Hdr empty_c [] EOF],
      piece = (\<lambda>k d. 1)\<rparr>"

definition entry_of :: "tar_Header \<Rightarrow> 8 word list \<Rightarrow> TarFileEntry" where
  "entry_of hdr d = \<lparr>Sequence = 0, Header = hdr, Reader = TarReader sample d EOF\<rparr>"

definition escape :: "char \<Rightarrow> tar_Header" where
  "escape flag =
     \<lparr>Name = ''../escape'', Typeflag = flag, Linkname = ''/etc/passwd'', Size = 0, Mode = 0x1A4\<rparr>"

definition link_to :: "char \<Rightarrow> tar_Header" where
  "link_to flag =
     \<lparr>Name = ''a/link'', Typeflag = flag, Linkname = ''/etc/passwd'', Size = 0, Mode = 0x1FF\<rparr>"

definition dot :: "char \<Rightarrow> tar_Header" where
  "dot flag = \<lparr>Name = ''.'', Typeflag = flag, Linkname = [], Size = 0, Mode = 0x1ED\<rparr>"

text \<open>A visitor that notes the sequence number and name of every entry and continues.\<close>

definition note_entry :: "(64 word \<times> string) list TarFileVisitor" where
  "note_entry entry seen = (None, seen @ [(Sequence entry, Name (Header entry))])"

text \<open>A visitor that fails with the given error at the given name and continues elsewhere.\<close>

definition fail_at :: "string \<Rightarrow> error \<Rightarrow> nat TarFileVisitor" where
  "fail_at name err entry n = (if Name (Header entry) = name then Some err else None, Suc n)"

subsection \<open>Getting past a prefix of the stream\<close>

text \<open>
  The counter and the visitor's state with which the loop of \<^verbatim>\<open>IterateTar\<close>
  arrives behind the given frames; \<open>None\<close> when it leaves the loop among them
  (a decoder error, or a visitor that does not return nil).
\<close>

fun advance ::
  "raw_stream \<Rightarrow> 's TarFileVisitor \<Rightarrow> 64 word \<Rightarrow> tar_frame list \<Rightarrow> 's \<Rightarrow> (64 word \<times> 's) option" where
  "advance r visitor sequence [] s = Some (sequence, s)"
| "advance r visitor sequence (Fail err # rest) s = None"
| "advance r visitor sequence (NilHdr # rest) s = advance r visitor (sequence + 1) rest s"
| "advance r visitor sequence (Hdr hdr d fin # rest) s =
     (case visitor \<lparr>Sequence = sequence + 1, Header = hdr, Reader = TarReader r d fin\<rparr> s of
        (None, s') \<Rightarrow> advance r visitor (sequence + 1) rest s'
      | (Some err, s') \<Rightarrow> None)"

text \<open>A frame that a lookup of \<open>tarPath\<close> passes by: a header of another name, or a nil header.\<close>

fun no_match :: "string \<Rightarrow> tar_frame \<Rightarrow> bool" where
  "no_match tarPath (Hdr hdr d fin) = (Name hdr \<noteq> tarPath)"
| "no_match tarPath NilHdr = True"
| "no_match tarPath (Fail err) = False"

subsection \<open>Complete writes\<close>

text \<open>
  The state of the filesystem after each of the pieces was written to the file
  \<open>f\<close>, in order, in full and without error; \<open>None\<close> when one of the writes
  was not.
\<close>

fun complete_writes :: "('w, 'f) Fs \<Rightarrow> 'f \<Rightarrow> 8 word list list \<Rightarrow> 'w \<Rightarrow> 'w option" where
  "complete_writes F f [] w = Some w"
| "complete_writes F f (c # cs) w =
     (case Write F f c w of
        ((nw, ew), w') \<Rightarrow>
          if nw = int (length c) \<and> ew = None then complete_writes F f cs w' else None)"

section \<open>Properties\<close>

lemmas path_defs = filepath_Join_def filepath_Clean_def PathSeparator_def strings_HasPrefix_def

lemmas flag_defs = TypeReg_def TypeLink_def TypeSymlink_def TypeDir_def

lemmas mem_defs = memFs_def out_dir_def fs_Stat_def fs_MkdirAll_def fs_OpenFile_def
  fs_Write_def fs_Close_def io_Copy_def io_LimitReader_def copy_buffer_def Read_len_def
  LimitedReader_reads.simps O_CREATE_def O_RDWR_def dir_mode_def

lemmas sample_defs = sample_def entry_of_def dir_a_def file_b_def empty_c_def hi_def
  escape_def link_to_def dot_def

subsection \<open>The path functions on the examples of Go's documentation\<close>

lemma filepath_Join_examples:
  "filepath_Join ''a'' ''b/c'' = ''a/b/c''"
  "filepath_Join ''a/b'' ''../../../xyz'' = ''../xyz''"
  "filepath_Join ''a'' [] = ''a''"
  "filepath_Join [] [] = []"
  "filepath_Join ''/out'' ''a/b.txt'' = ''/out/a/b.txt''"
  "filepath_Join ''/out'' ''/etc/passwd'' = ''/out/etc/passwd''"
  "filepath_Join ''/out'' ''../escape'' = ''/escape''"
  "filepath_Join ''/out'' ''.'' = ''/out''"
  by (simp_all add: path_defs)

lemma filepath_Clean_examples:
  "filepath_Clean ''abc/def/../ghi/../jkl'' = ''abc/jkl''"
  "filepath_Clean ''abc/../../././../def'' = ''../../def''"
  "filepath_Clean ''abc//./../def'' = ''def''"
  "filepath_Clean ''/../abc'' = ''/abc''"
  "filepath_Clean ''abc/..'' = ''.''"
  "filepath_Clean [] = ''.''"
  by (simp_all add: path_defs)

subsection \<open>The extraction visitor\<close>

text \<open>
  C1. When the joined target does not begin with the destination followed by the
  separator and the entry's name is not \<^verbatim>\<open>.\<close>, the visitor returns the
  path-traversal error carrying the entry's name, and the filesystem state and
  the list of calls are the ones it was given: no operation was performed.
\<close>

theorem visit_traversal_rejected:
  assumes "\<not> strings_HasPrefix (filepath_Join destination (Name (Header entry)))
             (destination @ [PathSeparator])"
      and "Name (Header entry) \<noteq> ''.''"
  shows "visit F destination perFileReadLimit entry st
           = (Some (ErrTraversal (Name (Header entry))), st)"
  using assms by (simp add: visit_def Let_def)

theorem visit_traversal_rejected_witness:
  "\<not> strings_HasPrefix (filepath_Join ''/out'' ''../escape'') ''/out/''
   \<and> visit memFs ''/out'' 2147483648 (entry_of (escape TypeReg) hi) out_dir
       = (Some (ErrTraversal ''../escape''), out_dir)"
proof -
  have outside: "\<not> strings_HasPrefix
      (filepath_Join ''/out'' (Name (Header (entry_of (escape TypeReg) hi))))
      (''/out'' @ [PathSeparator])"
    by (simp add: path_defs sample_defs)
  have name: "Name (Header (entry_of (escape TypeReg) hi)) \<noteq> ''.''"
    by (simp add: sample_defs)
  show ?thesis
    using visit_traversal_rejected [OF outside name, of memFs 2147483648 out_dir] outside
    by (simp add: sample_defs PathSeparator_def)
qed

text \<open>
  C7, as the code has it. A symlink or hard-link entry never leads to a
  filesystem operation, whatever its link target: the visitor hands back the
  state it was given. It returns nil when the entry's name passes the containment
  check, and the path-traversal error of the check otherwise, since the check
  comes before the dispatch on the type flag.
\<close>

theorem visit_link_no_operation:
  assumes "Typeflag (Header entry) = TypeSymlink \<or> Typeflag (Header entry) = TypeLink"
  shows "visit F destination perFileReadLimit entry st =
     (if \<not> strings_HasPrefix (filepath_Join destination (Name (Header entry)))
              (destination @ [PathSeparator])
         \<and> Name (Header entry) \<noteq> ''.''
      then Some (ErrTraversal (Name (Header entry))) else None, st)"
  using assms by (auto simp add: visit_def Let_def)

theorem visit_link_no_operation_witness:
  "Typeflag (Header (entry_of (link_to TypeSymlink) [])) = TypeSymlink
   \<and> visit memFs ''/out'' 2147483648 (entry_of (link_to TypeSymlink) []) out_dir = (None, out_dir)"
proof -
  have link: "Typeflag (Header (entry_of (link_to TypeSymlink) [])) = TypeSymlink
      \<or> Typeflag (Header (entry_of (link_to TypeSymlink) [])) = TypeLink"
    by (simp add: sample_defs)
  show ?thesis
    using visit_link_no_operation [OF link, of memFs "''/out''" 2147483648 out_dir]
    by (simp add: sample_defs path_defs)
qed

text \<open>
  A symlink entry named \<^verbatim>\<open>../escape\<close>, extracted to \<^verbatim>\<open>/out\<close>: the visitor does
  not continue, it returns the path-traversal error.
\<close>

theorem visit_link_escape_fails:
  "Typeflag (Header (entry_of (escape TypeSymlink) [])) = TypeSymlink
   \<and> fst (visit memFs ''/out'' 2147483648 (entry_of (escape TypeSymlink) []) out_dir)
       = Some (ErrTraversal ''../escape'')"
  by (simp add: visit_def Let_def path_defs sample_defs)

text \<open>
  C8, as the code has it. For an entry named \<^verbatim>\<open>.\<close> whose type flag is not that
  of a regular file (a directory, a link, or any other), the visitor returns nil
  and performs no filesystem operation.
\<close>

theorem visit_dot_no_operation:
  assumes "Name (Header entry) = ''.''"
      and "Typeflag (Header entry) \<noteq> TypeReg"
  shows "visit F destination perFileReadLimit entry st = (None, st)"
  using assms by (simp add: visit_def Let_def)

theorem visit_dot_no_operation_witness:
  "Name (Header (entry_of (dot TypeDir) [])) = ''.''
   \<and> Typeflag (Header (entry_of (dot TypeDir) [])) \<noteq> TypeReg
   \<and> visit memFs ''/out'' 2147483648 (entry_of (dot TypeDir) []) out_dir = (None, out_dir)"
proof -
  have name: "Name (Header (entry_of (dot TypeDir) [])) = ''.''"
    by (simp add: sample_defs)
  have flag: "Typeflag (Header (entry_of (dot TypeDir) [])) \<noteq> TypeReg"
    by (simp add: sample_defs flag_defs)
  show ?thesis
    using visit_dot_no_operation [OF name flag, of memFs "''/out''" 2147483648 out_dir] name flag
    by simp
qed

text \<open>
  A regular-file entry named \<^verbatim>\<open>.\<close>, extracted to the existing directory
  \<^verbatim>\<open>/out\<close>: the visitor opens the destination itself for writing, with
  \<^verbatim>\<open>O_CREATE\<close>, and returns the error of that call.
\<close>

theorem visit_dot_regular_file_opens:
  "visit memFs ''/out'' 2147483648 (entry_of (dot TypeReg) []) out_dir
     = (Some (Plain ''is a directory''),
        \<lparr>world = [(''/out'', MemDir)], calls = [CallOpenFile ''/out'' 66 0x1ED]\<rparr>)"
  by (simp add: visit_def Let_def path_defs sample_defs flag_defs mem_defs)

text \<open>
  The pieces of a bounded copy are the first \<open>n\<close> bytes of the reader, cut
  where the reads end; a copy whose writes are all complete issues one
  \<^verbatim>\<open>Write\<close> for each piece and counts their bytes.
\<close>

lemma LimitedReader_reads_concat:
  "concat (LimitedReader_reads r buf n d) = take (nat n) d"
proof (induction r buf n d rule: LimitedReader_reads.induct)
  case (1 r buf n d)
  show ?case
  proof (cases "n \<le> 0 \<or> d = []")
    case True
    then show ?thesis
      by (auto simp add: LimitedReader_reads.simps [of r buf n d])
  next
    case False
    define nr where "nr = Read_len r (min buf (nat n)) d"
    have pos: "0 < n" "d \<noteq> []"
      using False by auto
    have le_n: "nr \<le> nat n"
      using pos by (auto simp add: nr_def Read_len_def)
    have unfold: "LimitedReader_reads r buf n d
            = take nr d # LimitedReader_reads r buf (n - int nr) (drop nr d)"
      using False by (simp add: LimitedReader_reads.simps [of r buf n d] nr_def Let_def)
    have rest: "concat (LimitedReader_reads r buf (n - int nr) (drop nr d))
            = take (nat (n - int nr)) (drop nr d)"
      using "1.IH" [OF False nr_def] .
    have "nat n = nr + nat (n - int nr)"
      using le_n by linarith
    then have "take (nat n) d = take nr d @ take (nat (n - int nr)) (drop nr d)"
      by (metis take_add)
    then show ?thesis
      by (simp add: unfold rest)
  qed
qed

text \<open>
  Over a stream whose reads fill the buffer, an entry of 40000 bytes copied under
  the limit of 2 GB arrives in a piece of 32 KiB and a piece of the rest.
\<close>

lemma LimitedReader_reads_two_pieces:
  assumes fills: "piece (stream_of r) = (\<lambda>k d. k)"
      and len: "length d = 40000"
  shows "LimitedReader_reads r (copy_buffer (io_LimitReader r 2147483648)) 2147483648 d
           = [take 32768 d, drop 32768 d]"
proof -
  have buf: "copy_buffer (io_LimitReader r 2147483648) = 32768"
    by (simp add: copy_buffer_def io_LimitReader_def)
  have d: "d \<noteq> []" "drop 32768 d \<noteq> []"
    using len by auto
  have first: "Read_len r (min 32768 (nat 2147483648)) d = 32768"
    using len by (simp add: Read_len_def fills)
  have second: "Read_len r (min 32768 (nat (2147483648 - int 32768))) (drop 32768 d) = 7232"
    using len by (simp add: Read_len_def fills)
  have last: "drop 7232 (drop 32768 d) = []" "take 7232 (drop 32768 d) = drop 32768 d"
    using len by simp_all
  show ?thesis
    unfolding buf
    apply (subst LimitedReader_reads.simps)
    apply (simp only: first Let_def d)
    apply (subst LimitedReader_reads.simps)
    apply (simp only: second Let_def d)
    apply (subst LimitedReader_reads.simps)
    apply (simp add: last len)
    done
qed

lemma copy_writes_complete:
  "complete_writes F f pieces w = Some w' \<Longrightarrow>
     copy_writes F f pieces rd_err written \<lparr>world = w, calls = cs\<rparr>
       = ((written + int (length (concat pieces)), rd_err),
          \<lparr>world = w', calls = cs @ map (CallWrite f) pieces\<rparr>)"
proof (induction pieces arbitrary: w cs written)
  case Nil
  then show ?case by simp
next
  case (Cons c pieces)
  obtain w1 where
    wr: "Write F f c w = ((int (length c), None), w1)" and
    rest: "complete_writes F f pieces w1 = Some w'"
    using Cons.prems by (auto split: prod.splits if_splits)
  show ?case
    using Cons.IH [OF rest, of "written + int (length c)" "cs @ [CallWrite f c]"] wr
    by (simp add: fs_Write_def Let_def add.assoc)
qed

text \<open>
  C2, as the code has it. For a regular-file entry that passes the containment
  check, whose target opens and whose writes are all complete, the copy writes
  the entry's content up to the limit, one \<^verbatim>\<open>Write\<close> for each piece that its
  reads deliver. When the content has at least \<open>perFileReadLimit\<close> bytes, the
  visitor returns the read-limit error with the two byte counts and leaves the
  file open. When the content is shorter than the limit and its reader ends
  regularly, the bytes written are the content, so that their count is the
  length of the content; the visitor closes the file and returns nil, whatever
  the close returns.
\<close>

theorem visit_regular_file:
  assumes reg: "Typeflag (Header entry) = TypeReg"
      and target: "target = filepath_Join destination (Name (Header entry))"
      and inside: "strings_HasPrefix target (destination @ [PathSeparator])
                     \<or> Name (Header entry) = ''.''"
      and content: "Read_all (Reader entry) = (d, fin)"
      and reads: "pieces = LimitedReader_reads (Reader entry)
                    (copy_buffer (io_LimitReader (Reader entry) perFileReadLimit))
                    perFileReadLimit d"
      and opened: "OpenFile F target (O_CREATE OR O_RDWR) (word_of_int (Mode (Header entry)))
                     (world st) = (Inr f, w1)"
      and written: "complete_writes F f pieces w1 = Some w2"
      and closed: "Close F f w2 = (cerr, w3)"
  shows "concat pieces = take (nat perFileReadLimit) d
       \<and> (perFileReadLimit \<le> int (length d) \<longrightarrow>
           visit F destination perFileReadLimit entry st =
             (Some (ErrReadLimit (max 0 perFileReadLimit) perFileReadLimit),
              \<lparr>world = w2,
                 calls = calls st
                   @ CallOpenFile target (O_CREATE OR O_RDWR) (word_of_int (Mode (Header entry)))
                   # map (CallWrite f) pieces\<rparr>))
       \<and> (int (length d) < perFileReadLimit \<and> fin = EOF \<longrightarrow>
           concat pieces = d
           \<and> visit F destination perFileReadLimit entry st =
             (None,
              \<lparr>world = w3,
                 calls = calls st
                   @ CallOpenFile target (O_CREATE OR O_RDWR) (word_of_int (Mode (Header entry)))
                   # map (CallWrite f) pieces @ [CallClose f]\<rparr>))"
proof -
  let ?mode = "word_of_int (Mode (Header entry)) :: 32 word"
  let ?open = "CallOpenFile target (O_CREATE OR O_RDWR) ?mode"
  let ?opened = "\<lparr>world = w1, calls = calls st @ [?open]\<rparr>"
  have distinct: "TypeReg \<noteq> TypeSymlink" "TypeReg \<noteq> TypeLink" "TypeReg \<noteq> TypeDir"
    by (simp_all add: flag_defs)
  have start: "visit F destination perFileReadLimit entry st =
      (case io_Copy F f (io_LimitReader (Reader entry) perFileReadLimit) ?opened of
         ((numBytes, err), st2) \<Rightarrow>
           if numBytes \<ge> perFileReadLimit
              \<or> (case err of None \<Rightarrow> False | Some e \<Rightarrow> errors_Is e EOF)
           then (Some (ErrReadLimit numBytes perFileReadLimit), st2)
           else
             (case err of
                Some e \<Rightarrow> (Some (ErrCopy e), st2)
              | None \<Rightarrow> (case fs_Close F f st2 of (_, st3) \<Rightarrow> (None, st3))))"
    using reg target inside opened distinct
    by (auto simp add: visit_def Let_def fs_OpenFile_def)
  have cat: "concat pieces = take (nat perFileReadLimit) d"
    unfolding reads by (rule LimitedReader_reads_concat)
  have copy: "io_Copy F f (io_LimitReader (Reader entry) perFileReadLimit) ?opened =
      ((int (length (concat pieces)),
        if int (length d) < perFileReadLimit \<and> fin \<noteq> EOF then Some fin else None),
       \<lparr>world = w2, calls = calls st @ ?open # map (CallWrite f) pieces\<rparr>)"
    using copy_writes_complete [OF written, of _ 0 "calls st @ [?open]"] content reads
    by (simp add: io_Copy_def io_LimitReader_def Let_def)
  show ?thesis
  proof (intro conjI impI)
    show "concat pieces = take (nat perFileReadLimit) d"
      by (rule cat)
  next
    assume big: "perFileReadLimit \<le> int (length d)"
    have len: "int (length (concat pieces)) = max 0 perFileReadLimit"
      using big by (auto simp add: cat min_def max_def)
    show "visit F destination perFileReadLimit entry st =
             (Some (ErrReadLimit (max 0 perFileReadLimit) perFileReadLimit),
              \<lparr>world = w2, calls = calls st @ ?open # map (CallWrite f) pieces\<rparr>)"
      unfolding start copy len using big by simp
  next
    assume small: "int (length d) < perFileReadLimit \<and> fin = EOF"
    have "length d \<le> nat perFileReadLimit"
      using small by linarith
    then show same: "concat pieces = d"
      by (simp add: cat)
    show "visit F destination perFileReadLimit entry st =
             (None,
              \<lparr>world = w3, calls = calls st @ ?open # map (CallWrite f) pieces @ [CallClose f]\<rparr>)"
      unfolding start copy same using small closed by (simp add: fs_Close_def)
  qed
qed

theorem visit_regular_file_witness:
  "visit memFs ''/out'' 3 (entry_of file_b hi) out_dir =
     (None,
      \<lparr>world = [(''/out/a/b.txt'', MemFile 0x1A4 [0x68, 0x69] 2),
                (''/out/a/b.txt'', MemFile 0x1A4 [0x68] 1),
                (''/out/a/b.txt'', MemFile 0x1A4 [] 0), (''/out'', MemDir)],
         calls = [CallOpenFile ''/out/a/b.txt'' 66 0x1A4, CallWrite ''/out/a/b.txt'' [0x68],
                  CallWrite ''/out/a/b.txt'' [0x69], CallClose ''/out/a/b.txt'']\<rparr>)"
proof -
  let ?e = "entry_of file_b hi"
  let ?p = "''/out/a/b.txt''"
  let ?w1 = "[(?p, MemFile 0x1A4 [] 0), (''/out'', MemDir)]"
  let ?w2 = "(?p, MemFile 0x1A4 [0x68, 0x69] 2) # (?p, MemFile 0x1A4 [0x68] 1) # ?w1"
  have reg: "Typeflag (Header ?e) = TypeReg"
    by (simp add: sample_defs)
  have target: "?p = filepath_Join ''/out'' (Name (Header ?e))"
    by (simp add: sample_defs path_defs)
  have inside: "strings_HasPrefix ?p (''/out'' @ [PathSeparator]) \<or> Name (Header ?e) = ''.''"
    by (simp add: path_defs)
  have content: "Read_all (Reader ?e) = (hi, EOF)"
    by (simp add: sample_defs)
  have reads: "[[0x68], [0x69]] = LimitedReader_reads (Reader ?e)
      (copy_buffer (io_LimitReader (Reader ?e) 3)) 3 hi"
    by (simp add: sample_defs copy_buffer_def io_LimitReader_def Read_len_def
        LimitedReader_reads.simps Let_def)
  have opened: "OpenFile memFs ?p (O_CREATE OR O_RDWR) (word_of_int (Mode (Header ?e)))
      (world out_dir) = (Inr ?p, ?w1)"
    by (simp add: sample_defs memFs_def out_dir_def)
  have written: "complete_writes memFs ?p [[0x68], [0x69]] ?w1 = Some ?w2"
    by (simp add: memFs_def)
  have closed: "Close memFs ?p ?w2 = (None, ?w2)"
    by (simp add: memFs_def)
  show ?thesis
    using visit_regular_file [OF reg target inside content reads opened written closed]
    by (simp add: hi_def out_dir_def O_CREATE_def O_RDWR_def sample_defs)
qed

text \<open>
  The same file extracted over an existing file of five bytes at its target: the
  visitor returns nil and has written the two bytes of the content, and the file
  keeps its five bytes, since it is opened without truncation. The count of the
  bytes written is the length of the content; the length of the file is not.
\<close>

lemma visit_existing_file_keeps_length:
  "visit memFs ''/out'' 2147483648 (entry_of file_b hi)
     \<lparr>world = [(''/out/a/b.txt'', MemFile 0x1A4 [1, 2, 3, 4, 5] 0), (''/out'', MemDir)],
        calls = []\<rparr> =
     (None,
      \<lparr>world = [(''/out/a/b.txt'', MemFile 0x1A4 [0x68, 0x69, 3, 4, 5] 2),
                (''/out/a/b.txt'', MemFile 0x1A4 [0x68, 2, 3, 4, 5] 1),
                (''/out/a/b.txt'', MemFile 0x1A4 [1, 2, 3, 4, 5] 0),
                (''/out/a/b.txt'', MemFile 0x1A4 [1, 2, 3, 4, 5] 0), (''/out'', MemDir)],
         calls = [CallOpenFile ''/out/a/b.txt'' 66 0x1A4, CallWrite ''/out/a/b.txt'' [0x68],
                  CallWrite ''/out/a/b.txt'' [0x69], CallClose ''/out/a/b.txt'']\<rparr>)"
  by (simp add: visit_def Let_def path_defs sample_defs flag_defs mem_defs)

text \<open>
  The file \<^verbatim>\<open>a/b.txt\<close> with its two bytes of content, extracted with a read limit
  of two bytes: the content does not exceed the limit, and the visitor returns
  the read-limit error.
\<close>

theorem visit_content_at_limit_fails:
  "int (length hi) \<le> 2
   \<and> fst (visit memFs ''/out'' 2 (entry_of file_b hi) out_dir) = Some (ErrReadLimit 2 2)"
  by (simp add: visit_def Let_def path_defs sample_defs flag_defs mem_defs)

subsection \<open>The loop of the iteration controller\<close>

lemma loop_advance:
  "advance r v sq pre s = Some (sq', s') \<Longrightarrow>
     IterateTar_loop r v sq (pre @ rest) s = IterateTar_loop r v sq' rest s'"
  by (induction r v sq pre s rule: advance.induct) (auto split: prod.splits option.splits)

lemma advance_sequence:
  "advance r v sq pre s = Some (sq', s') \<Longrightarrow> sq' = sq + of_nat (length pre)"
  by (induction r v sq pre s rule: advance.induct) (auto split: prod.splits option.splits)

lemma advance_no_match:
  assumes "\<forall>f \<in> set pre. no_match p f"
      and "\<And>ent s. Name (Header ent) \<noteq> p \<Longrightarrow> v ent s = (None, s)"
  shows "advance r v sq pre s = Some (sq + of_nat (length pre), s)"
  using assms
proof (induction pre arbitrary: sq)
  case Nil
  then show ?case by simp
next
  case (Cons f pre)
  then show ?case by (cases f) (simp_all add: add.assoc)
qed

text \<open>A decoder error ends the iteration unwrapped; one that is \<^verbatim>\<open>io.EOF\<close> ends it with nil.\<close>

lemma IterateTar_decode_error:
  assumes "frames r = pre @ Fail e # post"
      and "advance r v (- 1) pre s = Some (sq, s1)"
  shows "IterateTar r v s = ((if errors_Is e EOF then None else Some e, s1), post)"
  using loop_advance [OF assms(2), of "Fail e # post"] assms(1)
  by (simp add: IterateTar_def)

text \<open>
  The counter is an \<^verbatim>\<open>int64\<close>: below \<open>2 ^ 63\<close> entries the sequence number of the
  \<open>i\<close>-th entry is the integer \<open>i\<close>.
\<close>

lemma Sequence_value:
  assumes small: "i < 2 ^ 63"
  shows "sint (word_of_nat i :: 64 word) = int i"
proof -
  have "int i < 2 ^ 63"
    using small by (metis of_nat_less_iff of_nat_numeral of_nat_power)
  then have signed: "signed_take_bit 63 (int i) = int i"
    by (simp add: signed_take_bit_int_eq_self)
  have "i < 2 ^ 64"
    using small by simp
  then have "uint (word_of_nat i :: 64 word) = int i"
    by (simp add: unsigned_of_nat take_bit_nat_eq_self)
  then show ?thesis
    using signed by (simp add: sint_uint)
qed

lemma loop_all:
  assumes "\<And>ent s. fst (v ent s) = None"
  shows "IterateTar_loop r v (of_nat n - 1) (map (\<lambda>(h, d, e). Hdr h d e) es) s =
     ((None, foldl (\<lambda>s ent. snd (v ent s)) s
        (map (\<lambda>(i, (h, d, e)). \<lparr>Sequence = of_nat i, Header = h, Reader = TarReader r d e\<rparr>)
           (enumerate n es))), [])"
proof (induction es arbitrary: n s)
  case Nil
  then show ?case by simp
next
  case (Cons x es)
  obtain h d e where x: "x = (h, d, e)" by (cases x)
  let ?ent = "\<lparr>Sequence = of_nat n, Header = h, Reader = TarReader r d e\<rparr>"
  obtain s' where v: "v ?ent s = (None, s')"
    using assms [of ?ent s] by (cases "v ?ent s") simp
  show ?case
    using Cons.IH [of "Suc n" s'] v by (simp add: x)
qed

text \<open>
  C3. Over a stream whose decoder yields the \<open>N\<close> entries \<open>es\<close> and then
  \<^verbatim>\<open>io.EOF\<close>, with a visitor that returns nil on every call, \<^verbatim>\<open>IterateTar\<close>
  returns nil with nothing left in the stream, and the visitor's state is the one
  that its \<open>N\<close> calls produce one after the other: the call number \<open>i\<close>, counted
  from \<open>0\<close>, is on the \<open>i\<close>-th entry of the stream with \<open>Sequence = i\<close>.
\<close>

theorem IterateTar_visits_every_entry:
  assumes "frames r = map (\<lambda>(h, d, e). Hdr h d e) es"
      and "\<forall>ent s. fst (visitor ent s) = None"
  shows "IterateTar r visitor s =
     ((None, foldl (\<lambda>s ent. snd (visitor ent s)) s
        (map (\<lambda>(i, (h, d, e)). \<lparr>Sequence = of_nat i, Header = h, Reader = TarReader r d e\<rparr>)
           (enumerate 0 es))), [])"
  using loop_all [of visitor r 0 es s] assms by (simp add: IterateTar_def)

theorem IterateTar_visits_every_entry_witness:
  "IterateTar sample note_entry [] = ((None, [(0, ''a/''), (1, ''a/b.txt''), (2, ''a/c'')]), [])"
  using IterateTar_visits_every_entry [where r = sample and visitor = note_entry and s = "[]"
      and es = "[(dir_a, [], EOF), (file_b, hi, EOF), (empty_c, [], EOF)]"]
  by (simp add: sample_defs note_entry_def)

text \<open>
  C6, as the code has it. The loop has got past the frames \<open>pre\<close> and the
  visitor returns the error \<open>e\<close> for the entry that follows. When \<open>e\<close>
  neither is the stop sentinel nor wraps it, which is what \<^verbatim>\<open>errors.Is\<close>
  decides, \<^verbatim>\<open>IterateTar\<close> returns the error that wraps the entry's name and
  \<open>e\<close>; when \<open>e\<close> is the stop sentinel or wraps it, \<^verbatim>\<open>IterateTar\<close> returns
  nil. Either way the iteration ends there: the frames behind the entry stay in
  the stream and the visitor's state is the one of this call.
\<close>

theorem IterateTar_visitor_error:
  assumes "frames r = pre @ Hdr h d fin # post"
      and "advance r visitor (- 1) pre s = Some (sq, s1)"
      and "visitor \<lparr>Sequence = sq + 1, Header = h, Reader = TarReader r d fin\<rparr> s1 = (Some e, s2)"
  shows "(\<not> errors_Is e ErrTarStopIteration \<longrightarrow>
            IterateTar r visitor s = ((Some (ErrVisit (Name h) e), s2), post))
       \<and> (errors_Is e ErrTarStopIteration \<longrightarrow> IterateTar r visitor s = ((None, s2), post))"
  using loop_advance [OF assms(2), of "Hdr h d fin # post"] assms(1,3)
  by (simp add: IterateTar_def)

theorem IterateTar_visitor_error_witness:
  "IterateTar sample (fail_at ''a/b.txt'' (Plain ''boom'')) 0
     = ((Some (ErrVisit ''a/b.txt'' (Plain ''boom'')), 2), [Hdr empty_c [] EOF])
   \<and> IterateTar sample (fail_at ''a/b.txt'' ErrTarStopIteration) 0
     = ((None, 2), [Hdr empty_c [] EOF])"
  using IterateTar_visitor_error [where r = sample and pre = "[Hdr dir_a [] EOF]"
      and h = file_b and d = hi and fin = EOF and post = "[Hdr empty_c [] EOF]"
      and visitor = "fail_at ''a/b.txt'' (Plain ''boom'')" and s = 0 and sq = 0 and ?s1.0 = 1
      and e = "Plain ''boom''" and ?s2.0 = 2]
    IterateTar_visitor_error [where r = sample and pre = "[Hdr dir_a [] EOF]"
      and h = file_b and d = hi and fin = EOF and post = "[Hdr empty_c [] EOF]"
      and visitor = "fail_at ''a/b.txt'' ErrTarStopIteration" and s = 0 and sq = 0 and ?s1.0 = 1
      and e = ErrTarStopIteration and ?s2.0 = 2]
  by (simp add: sample_defs fail_at_def)

text \<open>
  A visitor that returns, for the entry \<^verbatim>\<open>a/b.txt\<close>, an error that wraps the stop
  sentinel: the error is another value than the sentinel, and \<^verbatim>\<open>IterateTar\<close>
  returns nil, not an error with the entry's name.
\<close>

theorem IterateTar_wrapped_stop_returns_nil:
  "Wrapped ''found'' ErrTarStopIteration \<noteq> ErrTarStopIteration
   \<and> fst (fail_at ''a/b.txt'' (Wrapped ''found'' ErrTarStopIteration)
          \<lparr>Sequence = 1, Header = file_b, Reader = TarReader sample hi EOF\<rparr> 1)
       = Some (Wrapped ''found'' ErrTarStopIteration)
   \<and> IterateTar sample (fail_at ''a/b.txt'' (Wrapped ''found'' ErrTarStopIteration)) 0
       = ((None, 2), [Hdr empty_c [] EOF])"
  by (simp add: IterateTar_def sample_defs fail_at_def)

subsection \<open>The lookups\<close>

lemma ReaderFromTar_visitor_pass:
  "Name (Header ent) \<noteq> p \<Longrightarrow> ReaderFromTar_visitor r p ent s = (None, s)"
  by (simp add: ReaderFromTar_visitor_def)

lemma MetadataFromTar_visitor_pass:
  "Name (Header ent) \<noteq> p \<Longrightarrow> MetadataFromTar_visitor N r p ent s = (None, s)"
  by (simp add: MetadataFromTar_visitor_def)

lemma ReaderFromTar_found:
  assumes "frames reader = pre @ Hdr h d fin # post"
      and "Name h = tarPath"
      and "\<forall>f \<in> set pre. no_match tarPath f"
  shows "ReaderFromTar reader tarPath =
           (Inr \<lparr>tarFile_Reader = TarReader reader d fin, tarFile_Closer = reader\<rparr>, post)"
proof -
  have "advance reader (ReaderFromTar_visitor reader tarPath) (- 1) pre None
          = Some (- 1 + of_nat (length pre), None)"
    using assms(3) by (rule advance_no_match) (rule ReaderFromTar_visitor_pass)
  then have "IterateTar reader (ReaderFromTar_visitor reader tarPath) None
          = IterateTar_loop reader (ReaderFromTar_visitor reader tarPath)
              (- 1 + of_nat (length pre)) (Hdr h d fin # post) None"
    unfolding IterateTar_def assms(1) by (rule loop_advance)
  then show ?thesis
    using assms(2) by (simp add: ReaderFromTar_def ReaderFromTar_visitor_def)
qed

lemma MetadataFromTar_found:
  assumes "frames reader = pre @ Hdr h d fin # post"
      and "Name h = tarPath"
      and "\<forall>f \<in> set pre. no_match tarPath f"
  shows "MetadataFromTar NewMetadata reader tarPath =
           (Inr (NewMetadata h (if Size h > 0 then Some (Original reader) else None)), post)"
proof -
  have "advance reader (MetadataFromTar_visitor NewMetadata reader tarPath) (- 1) pre None
          = Some (- 1 + of_nat (length pre), None)"
    using assms(3) by (rule advance_no_match) (rule MetadataFromTar_visitor_pass)
  then have "IterateTar reader (MetadataFromTar_visitor NewMetadata reader tarPath) None
          = IterateTar_loop reader (MetadataFromTar_visitor NewMetadata reader tarPath)
              (- 1 + of_nat (length pre)) (Hdr h d fin # post) None"
    unfolding IterateTar_def assms(1) by (rule loop_advance)
  then show ?thesis
    using assms(2) by (simp add: MetadataFromTar_def MetadataFromTar_visitor_def Let_def)
qed

text \<open>
  C4. The stream holds an entry of the name \<open>tarPath\<close>, behind frames that are
  headers of other names or nil headers; it may be the only one of that name.
  Then \<^verbatim>\<open>ReaderFromTar\<close> returns the composed reader of this entry: it reads
  what the decoder delivers for the entry, and its close is the close of the
  stream that was passed in. \<^verbatim>\<open>MetadataFromTar\<close> returns the metadata built
  from the entry's header. In both, the frames behind the entry are still in the
  stream: the decoder is not asked for them and the visitor does not see them.
\<close>

theorem lookup_found:
  assumes "frames reader = pre @ Hdr h d fin # post"
      and "Name h = tarPath"
      and "\<forall>f \<in> set pre. no_match tarPath f"
  shows "(\<exists>result. ReaderFromTar reader tarPath = (Inr result, post)
            \<and> tarFile_Read result = (d, fin)
            \<and> tarFile_Reader result = TarReader reader d fin
            \<and> tarFile_Closer result = reader
            \<and> (\<forall>closed. tarFile_Close result closed = stream_Close reader closed))
       \<and> (\<exists>content. MetadataFromTar NewMetadata reader tarPath
                       = (Inr (NewMetadata h content), post))"
  using ReaderFromTar_found [OF assms] MetadataFromTar_found [OF assms, of NewMetadata]
  by (auto simp add: tarFile_Read_def tarFile_Close_def)

theorem lookup_found_witness:
  "ReaderFromTar sample ''a/b.txt''
     = (Inr \<lparr>tarFile_Reader = TarReader sample hi EOF, tarFile_Closer = sample\<rparr>,
        [Hdr empty_c [] EOF])
   \<and> tarFile_Close \<lparr>tarFile_Reader = TarReader sample hi EOF, tarFile_Closer = sample\<rparr> {}
       = {ident sample}
   \<and> fst (MetadataFromTar (\<lambda>hdr content. Name hdr) sample ''a/b.txt'') = Inr ''a/b.txt''
   \<and> snd (MetadataFromTar (\<lambda>hdr content. Name hdr) sample ''a/b.txt'') = [Hdr empty_c [] EOF]"
  using lookup_found [where reader = sample and pre = "[Hdr dir_a [] EOF]" and h = file_b
      and d = hi and fin = EOF and post = "[Hdr empty_c [] EOF]" and tarPath = "''a/b.txt''"
      and NewMetadata = "\<lambda>hdr content. Name hdr"]
  by (auto simp add: sample_defs tarFile_Close_def stream_Close_def)

text \<open>
  C5. When every frame of the stream is a header of a name other than
  \<open>tarPath\<close> or a nil header, so that the decoder reports no error before the end
  of the stream, both lookups return the not-found error with \<open>tarPath\<close> as its
  path, and nothing is left in the stream.
\<close>

theorem lookup_not_found:
  assumes "\<forall>f \<in> set (frames reader). no_match tarPath f"
  shows "ReaderFromTar reader tarPath = (Inl (ErrFileNotFound tarPath), [])
       \<and> MetadataFromTar NewMetadata reader tarPath = (Inl (ErrFileNotFound tarPath), [])"
proof -
  have a: "advance reader (ReaderFromTar_visitor reader tarPath) (- 1) (frames reader) None
          = Some (- 1 + of_nat (length (frames reader)), None)"
    using assms by (rule advance_no_match) (rule ReaderFromTar_visitor_pass)
  have b: "advance reader (MetadataFromTar_visitor NewMetadata reader tarPath) (- 1)
             (frames reader) None
          = Some (- 1 + of_nat (length (frames reader)), None)"
    using assms by (rule advance_no_match) (rule MetadataFromTar_visitor_pass)
  show ?thesis
    using loop_advance [OF a, of "[]"] loop_advance [OF b, of "[]"]
    by (simp add: ReaderFromTar_def MetadataFromTar_def IterateTar_def)
qed

theorem lookup_not_found_witness:
  "ReaderFromTar sample ''a/missing'' = (Inl (ErrFileNotFound ''a/missing''), [])
   \<and> MetadataFromTar (\<lambda>hdr content. Name hdr) sample ''a/missing''
       = (Inl (ErrFileNotFound ''a/missing''), [])"
proof -
  have absent: "\<forall>f \<in> set (frames sample). no_match ''a/missing'' f"
    by (simp add: sample_defs)
  show ?thesis
    using lookup_not_found [OF absent, of "\<lambda>hdr content. Name hdr"] by simp
qed

text \<open>
  C9. When \<^verbatim>\<open>MetadataFromTar\<close> finds the entry, the metadata it returns is the
  constructor's result on the entry's header and a reader when the header's size
  is greater than zero, and on the header and no reader otherwise. This holds for
  every constructor, also the one that returns its two arguments.
\<close>

theorem MetadataFromTar_content_iff_size:
  assumes "frames reader = pre @ Hdr h d fin # post"
      and "Name h = tarPath"
      and "\<forall>f \<in> set pre. no_match tarPath f"
  shows "(Size h > 0 \<longrightarrow>
            (\<exists>content. fst (MetadataFromTar NewMetadata reader tarPath)
                         = Inr (NewMetadata h (Some content))))
       \<and> (\<not> Size h > 0 \<longrightarrow>
            fst (MetadataFromTar NewMetadata reader tarPath) = Inr (NewMetadata h None))"
  using MetadataFromTar_found [OF assms, of NewMetadata] by auto

theorem MetadataFromTar_content_iff_size_witness:
  "fst (MetadataFromTar (\<lambda>hdr content. (hdr, content)) sample ''a/b.txt'')
     \<noteq> Inr (file_b, None)
   \<and> fst (MetadataFromTar (\<lambda>hdr content. (hdr, content)) sample ''a/c'') = Inr (empty_c, None)"
  using MetadataFromTar_content_iff_size [where reader = sample and pre = "[Hdr dir_a [] EOF]"
      and h = file_b and d = hi and fin = EOF and post = "[Hdr empty_c [] EOF]"
      and tarPath = "''a/b.txt''" and NewMetadata = "\<lambda>hdr content. (hdr, content)"]
    MetadataFromTar_content_iff_size [where reader = sample
      and pre = "[Hdr dir_a [] EOF, Hdr file_b hi EOF]"
      and h = empty_c and d = "[]" and fin = EOF and post = "[]"
      and tarPath = "''a/c''" and NewMetadata = "\<lambda>hdr content. (hdr, content)"]
  by (auto simp add: sample_defs)

text \<open>
  C10. When the entry that \<^verbatim>\<open>MetadataFromTar\<close> finds has a size greater than
  zero, the reader handed to the constructor is the stream that was passed to
  \<^verbatim>\<open>MetadataFromTar\<close>, which is another value than the \<^verbatim>\<open>Reader\<close> of the
  entry, the decoder positioned at the entry's content.
\<close>

theorem MetadataFromTar_content_is_stream:
  assumes "frames reader = pre @ Hdr h d fin # post"
      and "Name h = tarPath"
      and "\<forall>f \<in> set pre. no_match tarPath f"
      and "Size h > 0"
  shows "MetadataFromTar NewMetadata reader tarPath
           = (Inr (NewMetadata h (Some (Original reader))), post)
       \<and> Original reader
           \<noteq> Reader \<lparr>Sequence = sq, Header = h, Reader = TarReader reader d fin\<rparr>"
  using MetadataFromTar_found [OF assms(1-3), of NewMetadata] assms(4) by simp

theorem MetadataFromTar_content_is_stream_witness:
  "Size file_b > 0
   \<and> MetadataFromTar (\<lambda>hdr content. (hdr, content)) sample ''a/b.txt''
       = (Inr (file_b, Some (Original sample)), [Hdr empty_c [] EOF])"
  using MetadataFromTar_content_is_stream [where reader = sample and pre = "[Hdr dir_a [] EOF]"
      and h = file_b and d = hi and fin = EOF and post = "[Hdr empty_c [] EOF]"
      and tarPath = "''a/b.txt''" and NewMetadata = "\<lambda>hdr content. (hdr, content)"]
  by (simp add: sample_defs)

subsection \<open>A whole extraction\<close>

text \<open>
  The sample stream extracted to \<^verbatim>\<open>/out\<close>: the directory \<^verbatim>\<open>/out/a\<close> and the
  file \<^verbatim>\<open>/out/a/b.txt\<close> with the content \<^verbatim>\<open>hi\<close> come to exist. With an entry
  named \<^verbatim>\<open>../escape\<close> in second place, the extraction ends at that entry with
  the wrapped path-traversal error, and the entry behind it is not extracted.
\<close>

lemma UntarToDirectory_sample:
  "UntarToDirectory memFs 2147483648 sample ''/out'' out_dir =
     ((None,
       \<lparr>world = [(''/out/a/c'', MemFile 0x1A4 [] 0),
                 (''/out/a/b.txt'', MemFile 0x1A4 [0x68, 0x69] 2),
                 (''/out/a/b.txt'', MemFile 0x1A4 [0x68] 1),
                 (''/out/a/b.txt'', MemFile 0x1A4 [] 0), (''/out/a'', MemDir), (''/out'', MemDir)],
          calls = [CallStat ''/out/a'', CallMkdirAll ''/out/a'' 0x1ED,
                   CallOpenFile ''/out/a/b.txt'' 66 0x1A4, CallWrite ''/out/a/b.txt'' [0x68],
                   CallWrite ''/out/a/b.txt'' [0x69], CallClose ''/out/a/b.txt'',
                   CallOpenFile ''/out/a/c'' 66 0x1A4, CallClose ''/out/a/c'']\<rparr>), [])"
  by (simp add: UntarToDirectory_def IterateTar_def visit_def Let_def path_defs sample_defs
      flag_defs mem_defs)

lemma UntarToDirectory_escape:
  "UntarToDirectory memFs 2147483648
     (sample\<lparr>frames := [Hdr dir_a [] EOF, Hdr (escape TypeReg) hi EOF, Hdr file_b hi EOF]\<rparr>)
     ''/out'' out_dir =
     ((Some (ErrVisit ''../escape'' (ErrTraversal ''../escape'')),
       \<lparr>world = [(''/out/a'', MemDir), (''/out'', MemDir)],
          calls = [CallStat ''/out/a'', CallMkdirAll ''/out/a'' 0x1ED]\<rparr>),
      [Hdr file_b hi EOF])"
  by (simp add: UntarToDirectory_def IterateTar_def visit_def Let_def path_defs sample_defs
      flag_defs mem_defs)

end
